theory Spec2Isabelle
  imports Complex_Main "HOL-Library.Char_ord" "HOL-Library.List_Lexorder"
begin

section \<open>Lead time analytics of repo-stats: the data model\<close>

text \<open>
  The embedding follows \<open>LeadTimeCalculator\<close> (the calculator) and the queries of
  \<open>DatabaseManager.js\<close> it calls.

  Conventions of the model.
  \<^item> A DATETIME column holds the text the provider delivered (ISO-8601, ending in
    \<open>Z\<close> or in an offset such as \<open>+02:00\<close>). The store never parses it: the SQL
    comparisons \<open>>=\<close> and ORDER BY work on the text, byte by byte, which is the
    order of the type \<open>string\<close> here. (These texts are not numeric literals, so the
    numeric affinity of a DATETIME column leaves them text.)
  \<^item> JavaScript reads a stored text with \<open>new Date(text)\<close>. The time value of that
    date, \<open>getTime()\<close> in milliseconds since the epoch, is the parameter
    \<open>getTime\<close> of the calculator: it belongs to the JavaScript runtime. The stored
    texts are taken to be parsable.
  \<^item> \<open>datetime('now', '-N days')\<close> and \<open>ROUND(x, 2)\<close> belong to the SQLite engine
    and its clock: they are fields of the database.
  \<^item> An absent value (NULL) is \<open>None\<close>.
  \<^item> Hours are exact reals: the rounding of IEEE doubles is not part of the model.
  \<^item> The sqlite driver either answers a query or hands an error to the callback; the
    field \<open>db_fault\<close> of the database says which.
\<close>

type_synonym instant = int

text \<open>Rows of the table \<open>pull_requests\<close> (the columns the calculator reads).\<close>

record pull_request =
  pr_rowid :: int
  pr_repository_id :: string
  pr_number :: int
  pr_created_at_pr :: string
  pr_merged_at :: "string option"
  pr_first_commit_at :: "string option"
  pr_head_sha :: "string option"
  pr_merge_sha :: "string option"
  pr_is_merged :: bool

text \<open>Rows of the table \<open>deployments\<close>; \<open>deployment_date\<close> is NOT NULL.\<close>

record deployment =
  dep_rowid :: int
  dep_repository_id :: string
  deployment_date :: string
  commit_sha :: "string option"

text \<open>
  The object \<open>calculatePRLeadTime\<close> returns, and the row stored from it.
  \<open>first_commit_at\<close> and \<open>merged_at\<close> are the texts of the pull request;
  \<open>deployed_at\<close> is the date \<open>deployedTime\<close> (its time value), which the code
  stores as \<open>toISOString()\<close>.
\<close>

record lead_time_metric =
  repository_id :: string
  pr_id :: int
  deployment_id :: "int option"
  coding_time_hours :: real
  review_time_hours :: real
  deployment_time_hours :: real
  total_lead_time_hours :: real
  commit_to_merge_hours :: real
  merge_to_deploy_hours :: real
  first_commit_at :: string
  merged_at :: string
  deployed_at :: "instant option"

datatype db_error = SqliteError string

text \<open>
  The database: its tables, the two built-in functions of the engine that the queries
  call, and the state of the driver.
  \<^item> \<open>sqlite_datetime_now db n\<close> is the value of \<open>datetime('now', '-n days')\<close>, a text
    \<open>YYYY-MM-DD HH:MM:SS\<close>, or NULL when the modifier is not valid.
  \<^item> \<open>sqlite_round2 db x\<close> is the value of \<open>ROUND(x, 2)\<close>.
\<close>

record database =
  deployments :: "deployment list"
  pull_requests :: "pull_request list"
  lead_time_metrics :: "lead_time_metric list"
  sqlite_datetime_now :: "int \<Rightarrow> string option"
  sqlite_round2 :: "real \<Rightarrow> real"
  db_fault :: "db_error option"

section \<open>The store's query primitives\<close>

text \<open>\<open>column = ?\<close> on nullable text: a comparison with NULL is never true.\<close>

definition sql_eq :: "string option \<Rightarrow> string option \<Rightarrow> bool" where
  "sql_eq a b = (case a of None \<Rightarrow> False
                 | Some x \<Rightarrow> (case b of None \<Rightarrow> False | Some y \<Rightarrow> x = y))"

text \<open>
  \<open>column >= ?\<close> for a NOT NULL text column and a text that may be NULL: the
  comparison of the two texts, never true against NULL.
\<close>

definition sql_ge :: "string \<Rightarrow> string option \<Rightarrow> bool" where
  "sql_ge a b = (case b of None \<Rightarrow> False | Some t \<Rightarrow> t \<le> a)"

text \<open>The same for a column that may itself be NULL.\<close>

definition sql_ge_col :: "string option \<Rightarrow> string option \<Rightarrow> bool" where
  "sql_ge_col a b = (case a of None \<Rightarrow> False | Some x \<Rightarrow> sql_ge x b)"

text \<open>\<open>db.get\<close>: the first row of the result, if the driver answers.\<close>

definition db_get :: "database \<Rightarrow> 'a list \<Rightarrow> db_error + 'a option" where
  "db_get db rows =
     (case db_fault db of
        Some err \<Rightarrow> Inl err
      | None \<Rightarrow> Inr (case rows of [] \<Rightarrow> None | row # _ \<Rightarrow> Some row))"

text \<open>\<open>db.all\<close>: every row of the result, if the driver answers.\<close>

definition db_all :: "database \<Rightarrow> 'a list \<Rightarrow> db_error + 'a list" where
  "db_all db rows =
     (case db_fault db of Some err \<Rightarrow> Inl err | None \<Rightarrow> Inr rows)"

text \<open>The SQL fragment \<open>datetime('now', '-${days} days')\<close>, evaluated by the engine.\<close>

definition dateFilter :: "database \<Rightarrow> int \<Rightarrow> string option" where
  "dateFilter db days = sqlite_datetime_now db days"

section \<open>The calculator: matching and phase durations\<close>

text \<open>The first query of \<open>findDeploymentForPR\<close>: deployments of the commit.\<close>

definition exactSql :: "database \<Rightarrow> string \<Rightarrow> pull_request \<Rightarrow> deployment list" where
  "exactSql db repositoryId pr =
     sort_key deployment_date
       (filter (\<lambda>d. dep_repository_id d = repositoryId
                  \<and> sql_ge (deployment_date d) (pr_merged_at pr)
                  \<and> (sql_eq (commit_sha d) (pr_head_sha pr)
                     \<or> sql_eq (commit_sha d) (pr_merge_sha pr)))
          (deployments db))"

text \<open>The fallback query: any deployment whose date text is at or after the merge text.\<close>

definition fallbackSql :: "database \<Rightarrow> string \<Rightarrow> pull_request \<Rightarrow> deployment list" where
  "fallbackSql db repositoryId pr =
     sort_key deployment_date
       (filter (\<lambda>d. dep_repository_id d = repositoryId
                  \<and> sql_ge (deployment_date d) (pr_merged_at pr))
          (deployments db))"

definition findDeploymentForPR ::
  "database \<Rightarrow> string \<Rightarrow> pull_request \<Rightarrow> db_error + deployment option" where
  "findDeploymentForPR db repositoryId pr =
     (case db_get db (exactSql db repositoryId pr) of
        Inl err \<Rightarrow> Inl err
      | Inr (Some row) \<Rightarrow> Inr (Some row)
      | Inr None \<Rightarrow>
          (case db_get db (fallbackSql db repositoryId pr) of
             Inl err \<Rightarrow> Inl err
           | Inr fallbackRow \<Rightarrow> Inr fallbackRow))"

text \<open>The arguments are dates, given by their time values.\<close>

definition calculateHoursDifference :: "instant \<Rightarrow> instant \<Rightarrow> real" where
  "calculateHoursDifference startDate endDate =
     real_of_int (endDate - startDate) / (1000 * 60 * 60)"

text \<open>\<open>deployment?.id || null\<close>: the id, unless there is no row or the id is 0.\<close>

definition deployment_id_of :: "deployment option \<Rightarrow> int option" where
  "deployment_id_of deployment =
     (case deployment of
        None \<Rightarrow> None
      | Some d \<Rightarrow> (if dep_rowid d = 0 then None else Some (dep_rowid d)))"

text \<open>\<open>!value\<close> for a text column: true for NULL and for the empty text.\<close>

definition js_not :: "string option \<Rightarrow> bool" where
  "js_not v = (case v of None \<Rightarrow> True | Some s \<Rightarrow> s = [])"

definition calculatePRLeadTime ::
  "(string \<Rightarrow> instant) \<Rightarrow> database \<Rightarrow> string \<Rightarrow> pull_request
     \<Rightarrow> db_error + lead_time_metric option" where
  "calculatePRLeadTime getTime db repositoryId pr =
     (if js_not (pr_first_commit_at pr) \<or> js_not (pr_merged_at pr) then Inr None
      else
     (case pr_first_commit_at pr of
        None \<Rightarrow> Inr None
      | Some first_commit_at_text \<Rightarrow>
     (case pr_merged_at pr of
        None \<Rightarrow> Inr None
      | Some merged_at_text \<Rightarrow>
     (let firstCommitTime = getTime first_commit_at_text;
          mergedTime = getTime merged_at_text
      in
     (case findDeploymentForPR db repositoryId pr of
        Inl err \<Rightarrow> Inl err
      | Inr deployment \<Rightarrow>
          (let deployedTime =
                 (case deployment of
                    Some d \<Rightarrow> getTime (deployment_date d)
                  | None \<Rightarrow> mergedTime);
               mergeToDeployHours =
                 (case deployment of
                    Some d \<Rightarrow> calculateHoursDifference mergedTime deployedTime
                  | None \<Rightarrow> 0);
               totalLeadTimeHours =
                 (case deployment of
                    Some d \<Rightarrow> calculateHoursDifference firstCommitTime deployedTime
                  | None \<Rightarrow> calculateHoursDifference firstCommitTime mergedTime);
               commitToMergeHours = calculateHoursDifference firstCommitTime mergedTime;
               prCreatedTime = getTime (pr_created_at_pr pr);
               codingTimeHours = calculateHoursDifference firstCommitTime prCreatedTime;
               reviewTimeHours = calculateHoursDifference prCreatedTime mergedTime
           in Inr (Some \<lparr>
                repository_id = repositoryId,
                pr_id = pr_rowid pr,
                deployment_id = deployment_id_of deployment,
                coding_time_hours = max 0 codingTimeHours,
                review_time_hours = max 0 reviewTimeHours,
                deployment_time_hours = mergeToDeployHours,
                total_lead_time_hours = totalLeadTimeHours,
                commit_to_merge_hours = commitToMergeHours,
                merge_to_deploy_hours = mergeToDeployHours,
                first_commit_at = first_commit_at_text,
                merged_at = merged_at_text,
                deployed_at = Some deployedTime \<rparr>)))))))"

section \<open>The calculator: the loop over merged pull requests\<close>

text \<open>
  \<open>getPullRequestsForLeadTime\<close>: merged pull requests of the repository whose merge
  text is at or after the cutoff text, in descending order of the merge text. The LEFT
  JOIN yields a pull request once for each metric row stored for it, and once when
  there is none; the two joined columns are not read by the calculator and are left
  out of the row.
\<close>

definition left_join_ltm :: "database \<Rightarrow> pull_request \<Rightarrow> pull_request list" where
  "left_join_ltm db pr =
     (let n = length (filter (\<lambda>ltm. pr_id ltm = pr_rowid pr) (lead_time_metrics db))
      in replicate (max 1 n) pr)"

definition getPullRequestsForLeadTime ::
  "database \<Rightarrow> string \<Rightarrow> int \<Rightarrow> db_error + pull_request list" where
  "getPullRequestsForLeadTime db repositoryId days =
     db_all db
       (rev (sort_key (\<lambda>pr. case pr_merged_at pr of None \<Rightarrow> [] | Some t \<Rightarrow> t)
          (concat (map (left_join_ltm db)
             (filter (\<lambda>pr. pr_repository_id pr = repositoryId
                        \<and> pr_is_merged pr
                        \<and> sql_ge_col (pr_merged_at pr) (dateFilter db days))
                (pull_requests db))))))"

text \<open>
  \<open>insertLeadTimeMetric\<close>: the table has no uniqueness constraint besides its
  generated id, so INSERT OR REPLACE appends a row.
\<close>

definition insertLeadTimeMetric :: "database \<Rightarrow> lead_time_metric \<Rightarrow> db_error + database" where
  "insertLeadTimeMetric db metric =
     (case db_fault db of
        Some err \<Rightarrow> Inl err
      | None \<Rightarrow> Inr (db\<lparr>lead_time_metrics := lead_time_metrics db @ [metric]\<rparr>))"

text \<open>
  The body of the \<open>for\<close> loop of \<open>calculateLeadTime\<close>: an error of either await is
  caught and the pull request skipped; the state is the database and the metrics
  pushed so far.
\<close>

fun calculateLeadTime_loop ::
  "(string \<Rightarrow> instant) \<Rightarrow> string \<Rightarrow> pull_request list
     \<Rightarrow> database \<times> lead_time_metric list \<Rightarrow> database \<times> lead_time_metric list" where
  "calculateLeadTime_loop getTime repositoryId [] (db, leadTimeMetrics) =
     (db, leadTimeMetrics)"
| "calculateLeadTime_loop getTime repositoryId (pr # prs) (db, leadTimeMetrics) =
     (case calculatePRLeadTime getTime db repositoryId pr of
        Inl err \<Rightarrow> calculateLeadTime_loop getTime repositoryId prs (db, leadTimeMetrics)
      | Inr None \<Rightarrow> calculateLeadTime_loop getTime repositoryId prs (db, leadTimeMetrics)
      | Inr (Some metric) \<Rightarrow>
          (case insertLeadTimeMetric db metric of
             Inl err \<Rightarrow>
               calculateLeadTime_loop getTime repositoryId prs (db, leadTimeMetrics)
           | Inr db' \<Rightarrow>
               calculateLeadTime_loop getTime repositoryId prs
                 (db', leadTimeMetrics @ [metric])))"

definition calculateLeadTime ::
  "(string \<Rightarrow> instant) \<Rightarrow> database \<Rightarrow> string \<Rightarrow> int
     \<Rightarrow> db_error + database \<times> lead_time_metric list" where
  "calculateLeadTime getTime db repositoryId days =
     (case getPullRequestsForLeadTime db repositoryId days of
        Inl err \<Rightarrow> Inl err
      | Inr pullRequests \<Rightarrow>
          (if length pullRequests = 0 then Inr (db, [])
           else Inr (calculateLeadTime_loop getTime repositoryId pullRequests (db, []))))"

section \<open>The store's aggregate queries\<close>

text \<open>\<open>if (repositoryId)\<close>: null and the empty string add no condition.\<close>

definition repo_condition :: "string option \<Rightarrow> string \<Rightarrow> bool" where
  "repo_condition repositoryId r =
     (case repositoryId of
        None \<Rightarrow> True
      | Some x \<Rightarrow> (if x = [] then True else r = x))"

text \<open>
  The WHERE clause shared by both aggregate queries: the text of \<open>first_commit_at\<close>
  against the text of the cutoff.
\<close>

definition metrics_in_window ::
  "database \<Rightarrow> string option \<Rightarrow> int \<Rightarrow> lead_time_metric list" where
  "metrics_in_window db repositoryId days =
     filter (\<lambda>ltm. sql_ge (first_commit_at ltm) (dateFilter db days)
                  \<and> repo_condition repositoryId (repository_id ltm))
       (lead_time_metrics db)"

text \<open>The keys of GROUP BY and PARTITION BY \<open>repository_id\<close>, in ascending order.\<close>

definition repository_keys :: "lead_time_metric list \<Rightarrow> string list" where
  "repository_keys rows = sort (remdups (map repository_id rows))"

definition sql_avg :: "real list \<Rightarrow> real" where
  "sql_avg xs = sum_list xs / real (length xs)"

fun sql_min :: "real list \<Rightarrow> real" where
  "sql_min [] = 0"
| "sql_min (x # xs) = fold min xs x"

fun sql_max :: "real list \<Rightarrow> real" where
  "sql_max [] = 0"
| "sql_max (x # xs) = fold max xs x"

record lead_time_stats =
  st_repository_id :: string
  pr_count :: nat
  avg_lead_time_hours :: real
  avg_lead_time_days :: real
  min_lead_time_hours :: real
  max_lead_time_hours :: real
  avg_commit_to_merge_hours :: real
  avg_merge_to_deploy_hours :: real
  under_24h_count :: nat
  under_1week_count :: nat

text \<open>The SELECT list over one group (a group is never empty).\<close>

definition stats_of_group ::
  "database \<Rightarrow> string \<Rightarrow> lead_time_metric list \<Rightarrow> lead_time_stats" where
  "stats_of_group db r grp =
     \<lparr> st_repository_id = r,
       pr_count = length grp,
       avg_lead_time_hours = sqlite_round2 db (sql_avg (map total_lead_time_hours grp)),
       avg_lead_time_days = sqlite_round2 db (sql_avg (map total_lead_time_hours grp) / 24),
       min_lead_time_hours = sql_min (map total_lead_time_hours grp),
       max_lead_time_hours = sql_max (map total_lead_time_hours grp),
       avg_commit_to_merge_hours = sqlite_round2 db (sql_avg (map commit_to_merge_hours grp)),
       avg_merge_to_deploy_hours = sqlite_round2 db (sql_avg (map merge_to_deploy_hours grp)),
       under_24h_count = length (filter (\<lambda>ltm. total_lead_time_hours ltm \<le> 24) grp),
       under_1week_count = length (filter (\<lambda>ltm. total_lead_time_hours ltm \<le> 168) grp) \<rparr>"

text \<open>
  GROUP BY yields the groups in the order of their keys; ORDER BY
  \<open>avg_lead_time_hours\<close> then sorts on the rounded mean and leaves groups with the
  same rounded mean in that order.
\<close>

definition getLeadTimeStats ::
  "database \<Rightarrow> string option \<Rightarrow> int \<Rightarrow> db_error + lead_time_stats list" where
  "getLeadTimeStats db repositoryId days =
     (let rows = metrics_in_window db repositoryId days
      in db_all db
           (sort_key avg_lead_time_hours
              (map (\<lambda>r. stats_of_group db r (filter (\<lambda>ltm. repository_id ltm = r) rows))
                 (repository_keys rows))))"

record percentile_row =
  pc_repository_id :: string
  pc_total_lead_time_hours :: real
  percentile :: real

text \<open>
  One partition of the window functions: the rows in ascending order of
  \<open>total_lead_time_hours\<close>, numbered from 1, each number times 100.0 over the count.
  The final ORDER BY (repository, then hours) keeps the partitions in the order of their
  keys and the rows of a partition in this order.
\<close>

definition percentile_partition :: "string \<Rightarrow> lead_time_metric list \<Rightarrow> percentile_row list" where
  "percentile_partition r part =
     map (\<lambda>(row_number, ltm).
            \<lparr> pc_repository_id = r,
              pc_total_lead_time_hours = total_lead_time_hours ltm,
              percentile = real row_number * 100 / real (length part) \<rparr>)
       (enumerate 1 (sort_key total_lead_time_hours part))"

definition dbManager_getLeadTimePercentiles ::
  "database \<Rightarrow> string option \<Rightarrow> int \<Rightarrow> db_error + percentile_row list" where
  "dbManager_getLeadTimePercentiles db repositoryId days =
     (let rows = metrics_in_window db repositoryId days
      in db_all db
           (concat
              (map (\<lambda>r. percentile_partition r (filter (\<lambda>ltm. repository_id ltm = r) rows))
                 (repository_keys rows))))"

section \<open>The calculator: percentiles, categories and insights\<close>

text \<open>The closure \<open>findPercentile\<close> of \<open>getLeadTimePercentiles\<close>.\<close>

definition findPercentile :: "percentile_row list \<Rightarrow> real \<Rightarrow> real option" where
  "findPercentile percentileData target =
     (case find (\<lambda>d. target \<le> percentile d) percentileData of
        Some item \<Rightarrow> Some (pc_total_lead_time_hours item)
      | None \<Rightarrow> None)"

record percentiles =
  p50 :: "real option"
  p75 :: "real option"
  p90 :: "real option"
  p95 :: "real option"

definition getLeadTimePercentiles ::
  "database \<Rightarrow> string option \<Rightarrow> int \<Rightarrow> db_error + percentiles" where
  "getLeadTimePercentiles db repositoryId days =
     (case dbManager_getLeadTimePercentiles db repositoryId days of
        Inl err \<Rightarrow> Inl err
      | Inr percentileData \<Rightarrow>
          (if length percentileData = 0
           then Inr \<lparr> p50 = None, p75 = None, p90 = None, p95 = None \<rparr>
           else Inr \<lparr> p50 = findPercentile percentileData 50,
                      p75 = findPercentile percentileData 75,
                      p90 = findPercentile percentileData 90,
                      p95 = findPercentile percentileData 95 \<rparr>))"

record lead_time_category =
  category :: string
  color :: string
  description :: string

definition categorizeLeadTime :: "real \<Rightarrow> lead_time_category" where
  "categorizeLeadTime hours =
     (let days = hours / 24
      in if days \<le> 1
         then \<lparr> category = ''Elite'', color = ''green'', description = ''Less than 1 day'' \<rparr>
         else if days \<le> 7
         then \<lparr> category = ''High'', color = ''blue'', description = ''1-7 days'' \<rparr>
         else if days \<le> 30
         then \<lparr> category = ''Medium'', color = ''yellow'', description = ''1-4 weeks'' \<rparr>
         else \<lparr> category = ''Low'', color = ''red'', description = ''More than 1 month'' \<rparr>)"

text \<open>
  The two shapes of object \<open>generateInsights\<close> returns: the one without data has a
  message and recommendations only.
\<close>

datatype insights =
  NoData (message: string) (no_data_recommendations: "string list")
| Insights (insights_category: string) (avgLeadTimeDays: real)
    (insights_percentiles: percentiles) (recommendations: "string list")

text \<open>Reading the property \<open>category\<close> of the returned object.\<close>

fun category_property :: "insights \<Rightarrow> string option" where
  "category_property (NoData m rs) = None"
| "category_property (Insights c a p rs) = Some c"

definition generateInsights ::
  "database \<Rightarrow> string option \<Rightarrow> int \<Rightarrow> db_error + insights" where
  "generateInsights db repositoryId days =
     (case getLeadTimeStats db repositoryId days of
        Inl err \<Rightarrow> Inl err
      | Inr stats \<Rightarrow>
     (case getLeadTimePercentiles db repositoryId days of
        Inl err \<Rightarrow> Inl err
      | Inr pcts \<Rightarrow>
     (case stats of
        [] \<Rightarrow> Inr (NoData ''No lead time data available''
                 [''Set up deployment tracking'',
                  ''Ensure PRs are properly linked to deployments''])
      | repoStats # _ \<Rightarrow>
          (let avgDays = avg_lead_time_days repoStats;
               cat = categorizeLeadTime (avg_lead_time_hours repoStats)
           in Inr (Insights (category cat) avgDays pcts
                (if category cat = ''Low''
                 then [''Consider implementing feature flags to reduce batch sizes'',
                       ''Review deployment pipeline for automation opportunities'',
                       ''Implement more frequent deployments to reduce lead time'']
                 else if category cat = ''Medium''
                 then [''Focus on reducing review time through better PR practices'',
                       ''Automate more of the deployment process'',
                       ''Consider trunk-based development'']
                 else [''Great lead time performance! Consider sharing practices with other teams'',
                       ''Monitor for any increases in lead time as the team scales'']))))))"

section \<open>Example data\<close>

text \<open>
  The time values JavaScript reads from the timestamp texts of the examples, and 0
  elsewhere. The two texts with an offset denote 02:00:00 and 11:42:42 UTC.
\<close>

definition ex_getTime :: "string \<Rightarrow> instant" where
  "ex_getTime text =
     (case map_of
        [(''1970-01-01T00:00:00.000Z'', 0),
         (''1970-01-01T01:00:00.000Z'', 3600000),
         (''1970-01-01T02:00:00.000Z'', 7200000),
         (''1970-01-01T03:00:00.000Z'', 10800000),
         (''1970-01-01T04:00:00.000Z'', 14400000),
         (''1970-01-01T05:00:00.000Z'', 18000000),
         (''1970-01-01T10:00:00.000Z'', 36000000),
         (''1970-01-01T04:00:00.000+02:00'', 7200000),
         (''1970-01-01T04:42:42-07:00'', 42162000)] text of
        Some t \<Rightarrow> t
      | None \<Rightarrow> 0)"

text \<open>
  An engine whose clock makes \<open>datetime('now', '-30 days')\<close> the text
  \<open>2024-01-10 12:00:00\<close>, and whose \<open>ROUND(x, 2)\<close> rounds the exact value to two
  decimals, halves away from zero (SQLite rounds the double it holds, which can differ
  from this next to a half; the examples stay away from halves).
\<close>

definition ex_datetime_now :: "int \<Rightarrow> string option" where
  "ex_datetime_now days = (if days = 30 then Some ''2024-01-10 12:00:00'' else None)"

definition ex_round2 :: "real \<Rightarrow> real" where
  "ex_round2 x =
     (if x < 0 then - (real_of_int \<lfloor>- x * 100 + 1 / 2\<rfloor> / 100)
      else real_of_int \<lfloor>x * 100 + 1 / 2\<rfloor> / 100)"

definition ex_store :: "deployment list \<Rightarrow> lead_time_metric list \<Rightarrow> database" where
  "ex_store ds ltms =
     \<lparr> deployments = ds, pull_requests = [], lead_time_metrics = ltms,
       sqlite_datetime_now = ex_datetime_now, sqlite_round2 = ex_round2,
       db_fault = None \<rparr>"

text \<open>
  A merged pull request of \<open>acme-api\<close>: first commit at 0h, opened at 1h, merged at
  3h. The repository has a deployment of the head commit before the merge (2h), a
  deployment without commit at 4h and a deployment of the merge commit at 5h, all
  stored in one format.
\<close>

definition ex_pr :: pull_request where
  "ex_pr = \<lparr> pr_rowid = 7, pr_repository_id = ''acme-api'', pr_number = 42,
     pr_created_at_pr = ''1970-01-01T01:00:00.000Z'',
     pr_merged_at = Some ''1970-01-01T03:00:00.000Z'',
     pr_first_commit_at = Some ''1970-01-01T00:00:00.000Z'',
     pr_head_sha = Some ''abc'', pr_merge_sha = Some ''def'', pr_is_merged = True \<rparr>"

definition ex_dep1 :: deployment where
  "ex_dep1 = \<lparr> dep_rowid = 1, dep_repository_id = ''acme-api'',
     deployment_date = ''1970-01-01T02:00:00.000Z'', commit_sha = Some ''abc'' \<rparr>"

definition ex_dep2 :: deployment where
  "ex_dep2 = \<lparr> dep_rowid = 2, dep_repository_id = ''acme-api'',
     deployment_date = ''1970-01-01T04:00:00.000Z'', commit_sha = None \<rparr>"

definition ex_dep3 :: deployment where
  "ex_dep3 = \<lparr> dep_rowid = 3, dep_repository_id = ''acme-api'',
     deployment_date = ''1970-01-01T05:00:00.000Z'', commit_sha = Some ''def'' \<rparr>"

definition ex_db :: database where
  "ex_db = ex_store [ex_dep1, ex_dep2, ex_dep3] []"

definition ex_metric :: lead_time_metric where
  "ex_metric = \<lparr> repository_id = ''acme-api'', pr_id = 7, deployment_id = Some 3,
     coding_time_hours = 1, review_time_hours = 2, deployment_time_hours = 2,
     total_lead_time_hours = 5, commit_to_merge_hours = 3, merge_to_deploy_hours = 2,
     first_commit_at = ''1970-01-01T00:00:00.000Z'',
     merged_at = ''1970-01-01T03:00:00.000Z'', deployed_at = Some 18000000 \<rparr>"

text \<open>A store without deployments, and a change whose first commit is after its merge.\<close>

definition ex_db_empty :: database where
  "ex_db_empty = ex_store [] []"

definition ex_pr_inverted :: pull_request where
  "ex_pr_inverted = \<lparr> pr_rowid = 8, pr_repository_id = ''acme-api'', pr_number = 43,
     pr_created_at_pr = ''1970-01-01T00:00:00.000Z'',
     pr_merged_at = Some ''1970-01-01T01:00:00.000Z'',
     pr_first_commit_at = Some ''1970-01-01T02:00:00.000Z'',
     pr_head_sha = Some ''abc'', pr_merge_sha = None, pr_is_merged = True \<rparr>"

definition ex_metric_inverted :: lead_time_metric where
  "ex_metric_inverted = \<lparr> repository_id = ''acme-api'', pr_id = 8, deployment_id = None,
     coding_time_hours = 0, review_time_hours = 1, deployment_time_hours = 0,
     total_lead_time_hours = - 1, commit_to_merge_hours = - 1, merge_to_deploy_hours = 0,
     first_commit_at = ''1970-01-01T02:00:00.000Z'',
     merged_at = ''1970-01-01T01:00:00.000Z'', deployed_at = Some 3600000 \<rparr>"

text \<open>A change without a first commit time, and one whose first commit time is empty.\<close>

definition ex_pr_no_commit :: pull_request where
  "ex_pr_no_commit =
     ex_pr \<lparr> pr_rowid := 9, pr_number := 44, pr_first_commit_at := None \<rparr>"

definition ex_pr_empty_commit :: pull_request where
  "ex_pr_empty_commit =
     ex_pr \<lparr> pr_rowid := 10, pr_number := 45, pr_first_commit_at := Some [] \<rparr>"

text \<open>
  Deployments from tags, whose dates carry the offset of the commit. The first was
  made at 02:00 UTC, an hour before the merge of \<open>ex_pr\<close> at 03:00 UTC. The second
  was made at 11:42:42 UTC, after the merge of \<open>ex_pr_late\<close> at 10:00 UTC.
\<close>

definition ex_dep_east :: deployment where
  "ex_dep_east = \<lparr> dep_rowid = 4, dep_repository_id = ''acme-api'',
     deployment_date = ''1970-01-01T04:00:00.000+02:00'', commit_sha = Some ''fff'' \<rparr>"

definition ex_db_east :: database where
  "ex_db_east = ex_store [ex_dep_east] []"

definition ex_metric_east :: lead_time_metric where
  "ex_metric_east = \<lparr> repository_id = ''acme-api'', pr_id = 7, deployment_id = Some 4,
     coding_time_hours = 1, review_time_hours = 2, deployment_time_hours = - 1,
     total_lead_time_hours = 2, commit_to_merge_hours = 3, merge_to_deploy_hours = - 1,
     first_commit_at = ''1970-01-01T00:00:00.000Z'',
     merged_at = ''1970-01-01T03:00:00.000Z'', deployed_at = Some 7200000 \<rparr>"

definition ex_dep_west :: deployment where
  "ex_dep_west = \<lparr> dep_rowid = 5, dep_repository_id = ''acme-api'',
     deployment_date = ''1970-01-01T04:42:42-07:00'', commit_sha = Some ''def'' \<rparr>"

definition ex_db_west :: database where
  "ex_db_west = ex_store [ex_dep_west] []"

definition ex_pr_late :: pull_request where
  "ex_pr_late =
     ex_pr \<lparr> pr_rowid := 11, pr_number := 46,
             pr_merged_at := Some ''1970-01-01T10:00:00.000Z'' \<rparr>"

text \<open>
  Stored metrics of two repositories. With the cutoff \<open>2024-01-10 12:00:00\<close> the metric
  of pull request 4 (first commit on 1 January) is outside the window.
\<close>

definition ex_ltm ::
  "string \<Rightarrow> int \<Rightarrow> real \<Rightarrow> string \<Rightarrow> string \<Rightarrow> instant \<Rightarrow> lead_time_metric" where
  "ex_ltm r p hours firstCommit merged deployed =
     \<lparr> repository_id = r, pr_id = p, deployment_id = None,
       coding_time_hours = 0, review_time_hours = hours, deployment_time_hours = 0,
       total_lead_time_hours = hours, commit_to_merge_hours = hours,
       merge_to_deploy_hours = 0, first_commit_at = firstCommit,
       merged_at = merged, deployed_at = Some deployed \<rparr>"

definition ex_ltm1 :: lead_time_metric where
  "ex_ltm1 = ex_ltm ''zeta-web'' 1 200
     ''2024-01-30T08:00:00Z'' ''2024-02-07T16:00:00Z'' 1707321600000"

definition ex_ltm2 :: lead_time_metric where
  "ex_ltm2 = ex_ltm ''acme-api'' 2 30
     ''2024-01-20T08:00:00Z'' ''2024-01-21T14:00:00Z'' 1705845600000"

definition ex_ltm3 :: lead_time_metric where
  "ex_ltm3 = ex_ltm ''acme-api'' 3 6
     ''2024-01-25T08:00:00Z'' ''2024-01-25T14:00:00Z'' 1706191200000"

definition ex_ltm4 :: lead_time_metric where
  "ex_ltm4 = ex_ltm ''acme-api'' 4 100
     ''2024-01-01T08:00:00Z'' ''2024-01-05T12:00:00Z'' 1704456000000"

definition ex_ltm5 :: lead_time_metric where
  "ex_ltm5 = ex_ltm ''acme-api'' 5 12
     ''2024-02-04T08:00:00Z'' ''2024-02-04T20:00:00Z'' 1707076800000"

definition ex_metrics_db :: database where
  "ex_metrics_db = ex_store [] [ex_ltm1, ex_ltm2, ex_ltm3, ex_ltm4, ex_ltm5]"









text \<open>
  A repository whose only metric has its first commit at 04:18 on the day of the
  cutoff, 7.7 hours before the cutoff at 12:00.
\<close>

definition ex_ltm_edge :: lead_time_metric where
  "ex_ltm_edge = ex_ltm ''edge'' 1 5
     ''2024-01-10T04:18:00.000Z'' ''2024-01-10T09:18:00.000Z'' 1704878280000"

definition ex_db_edge :: database where
  "ex_db_edge = ex_store [] [ex_ltm_edge]"

section \<open>Properties of the lead time computer\<close>

lemma ex_getTime_values:
  "ex_getTime ''1970-01-01T00:00:00.000Z'' = 0"
  "ex_getTime ''1970-01-01T01:00:00.000Z'' = 3600000"
  "ex_getTime ''1970-01-01T02:00:00.000Z'' = 7200000"
  "ex_getTime ''1970-01-01T03:00:00.000Z'' = 10800000"
  "ex_getTime ''1970-01-01T04:00:00.000Z'' = 14400000"
  "ex_getTime ''1970-01-01T05:00:00.000Z'' = 18000000"
  "ex_getTime ''1970-01-01T10:00:00.000Z'' = 36000000"
  "ex_getTime ''1970-01-01T04:00:00.000+02:00'' = 7200000"
  "ex_getTime ''1970-01-01T04:42:42-07:00'' = 42162000"
  by (simp_all add: ex_getTime_def)

lemma ex_store_fields:
  "deployments (ex_store ds ltms) = ds" "lead_time_metrics (ex_store ds ltms) = ltms"
  "db_fault (ex_store ds ltms) = None" "sqlite_round2 (ex_store ds ltms) = ex_round2"
  "sqlite_datetime_now (ex_store ds ltms) = ex_datetime_now"
  by (simp_all add: ex_store_def)

lemma ex_pr_fields:
  "pr_first_commit_at ex_pr = Some ''1970-01-01T00:00:00.000Z''"
  "pr_merged_at ex_pr = Some ''1970-01-01T03:00:00.000Z''"
  "pr_created_at_pr ex_pr = ''1970-01-01T01:00:00.000Z''" "pr_rowid ex_pr = 7"
  "pr_head_sha ex_pr = Some ''abc''" "pr_merge_sha ex_pr = Some ''def''"
  by (simp_all add: ex_pr_def)

lemma ex_find:
  "findDeploymentForPR ex_db ''acme-api'' ex_pr = Inr (Some ex_dep3)"
  by (simp add: findDeploymentForPR_def db_get_def exactSql_def fallbackSql_def
        ex_db_def ex_store_fields ex_pr_fields ex_dep1_def ex_dep2_def ex_dep3_def
        sql_ge_def sql_eq_def)

lemma ex_calc:
  "calculatePRLeadTime ex_getTime ex_db ''acme-api'' ex_pr = Inr (Some ex_metric)"
  by (simp add: calculatePRLeadTime_def js_not_def ex_find ex_pr_fields
        calculateHoursDifference_def deployment_id_of_def ex_metric_def ex_dep3_def
        ex_getTime_values)

lemma ex_find_empty: "findDeploymentForPR ex_db_empty rid pr = Inr None"
  by (simp add: findDeploymentForPR_def db_get_def exactSql_def fallbackSql_def
        ex_db_empty_def ex_store_fields)

lemma ex_pr_inverted_fields:
  "pr_first_commit_at ex_pr_inverted = Some ''1970-01-01T02:00:00.000Z''"
  "pr_merged_at ex_pr_inverted = Some ''1970-01-01T01:00:00.000Z''"
  "pr_created_at_pr ex_pr_inverted = ''1970-01-01T00:00:00.000Z''"
  "pr_rowid ex_pr_inverted = 8"
  by (simp_all add: ex_pr_inverted_def)

lemma ex_calc_inverted:
  "calculatePRLeadTime ex_getTime ex_db_empty ''acme-api'' ex_pr_inverted
     = Inr (Some ex_metric_inverted)"
  by (simp add: calculatePRLeadTime_def js_not_def ex_find_empty ex_pr_inverted_fields
        calculateHoursDifference_def deployment_id_of_def ex_metric_inverted_def
        ex_getTime_values)

text \<open>What a computed metric holds, field by field.\<close>

lemma calculatePRLeadTime_metric:
  assumes "calculatePRLeadTime getTime db rid pr = Inr (Some m)"
  obtains f g dep where
    "pr_first_commit_at pr = Some f" "f \<noteq> []" "pr_merged_at pr = Some g" "g \<noteq> []"
    "findDeploymentForPR db rid pr = Inr dep"
    "coding_time_hours m =
       max 0 (calculateHoursDifference (getTime f) (getTime (pr_created_at_pr pr)))"
    "review_time_hours m =
       max 0 (calculateHoursDifference (getTime (pr_created_at_pr pr)) (getTime g))"
    "merge_to_deploy_hours m =
       (case dep of
          Some d \<Rightarrow> calculateHoursDifference (getTime g) (getTime (deployment_date d))
        | None \<Rightarrow> 0)"
    "deployment_time_hours m =
       (case dep of
          Some d \<Rightarrow> calculateHoursDifference (getTime g) (getTime (deployment_date d))
        | None \<Rightarrow> 0)"
    "total_lead_time_hours m =
       (case dep of
          Some d \<Rightarrow> calculateHoursDifference (getTime f) (getTime (deployment_date d))
        | None \<Rightarrow> calculateHoursDifference (getTime f) (getTime g))"
    "commit_to_merge_hours m = calculateHoursDifference (getTime f) (getTime g)"
    "deployed_at m =
       Some (case dep of Some d \<Rightarrow> getTime (deployment_date d) | None \<Rightarrow> getTime g)"
    "first_commit_at m = f" "merged_at m = g"
  using assms unfolding calculatePRLeadTime_def Let_def js_not_def
  by (auto split: option.splits sum.splits if_splits)

text \<open>
  Claim C1. When the timestamps of a change are in order, first commit, then opening,
  then merge, then deployment (the deployment being the matched one, or the merge
  itself when none is matched), the three phase durations of the metric add up to its
  total lead time: coding + review + merge-to-deploy = total. In the exact arithmetic
  of the model the two sides are equal, hence within 1e-6 hours of each other.
\<close>

theorem phase_durations_sum_to_total:
  assumes "calculatePRLeadTime getTime db repositoryId pr = Inr (Some m)"
    and "pr_first_commit_at pr = Some firstCommitAt"
    and "pr_merged_at pr = Some mergedAt"
    and "deployed_at m = Some deployedAt"
    and "getTime firstCommitAt \<le> getTime (pr_created_at_pr pr)"
    and "getTime (pr_created_at_pr pr) \<le> getTime mergedAt"
    and "getTime mergedAt \<le> deployedAt"
  shows "coding_time_hours m + review_time_hours m + merge_to_deploy_hours m
           = total_lead_time_hours m
       \<and> \<bar>coding_time_hours m + review_time_hours m + merge_to_deploy_hours m
            - total_lead_time_hours m\<bar> \<le> 1 / 10 ^ 6"
proof -
  from assms(1) obtain f g and dep :: "deployment option" where m:
    "pr_first_commit_at pr = Some f" "pr_merged_at pr = Some g"
    "coding_time_hours m =
       max 0 (calculateHoursDifference (getTime f) (getTime (pr_created_at_pr pr)))"
    "review_time_hours m =
       max 0 (calculateHoursDifference (getTime (pr_created_at_pr pr)) (getTime g))"
    "merge_to_deploy_hours m =
       (case dep of
          Some d \<Rightarrow> calculateHoursDifference (getTime g) (getTime (deployment_date d))
        | None \<Rightarrow> 0)"
    "total_lead_time_hours m =
       (case dep of
          Some d \<Rightarrow> calculateHoursDifference (getTime f) (getTime (deployment_date d))
        | None \<Rightarrow> calculateHoursDifference (getTime f) (getTime g))"
    by (rule calculatePRLeadTime_metric) blast
  from m(1,2) assms(2,3) have fg: "f = firstCommitAt" "g = mergedAt" by simp_all
  have "coding_time_hours m
          = calculateHoursDifference (getTime f) (getTime (pr_created_at_pr pr))"
    using m(3) assms(5) fg by (simp add: calculateHoursDifference_def)
  moreover have "review_time_hours m
          = calculateHoursDifference (getTime (pr_created_at_pr pr)) (getTime g)"
    using m(4) assms(6) fg by (simp add: calculateHoursDifference_def)
  ultimately have "coding_time_hours m + review_time_hours m + merge_to_deploy_hours m
           = total_lead_time_hours m"
    using m(5,6) by (cases dep) (simp_all add: calculateHoursDifference_def field_simps)
  then show ?thesis by simp
qed

theorem phase_durations_sum_to_total_witness:
  "calculatePRLeadTime ex_getTime ex_db ''acme-api'' ex_pr = Inr (Some ex_metric)
   \<and> pr_first_commit_at ex_pr = Some ''1970-01-01T00:00:00.000Z''
   \<and> pr_merged_at ex_pr = Some ''1970-01-01T03:00:00.000Z''
   \<and> deployed_at ex_metric = Some 18000000
   \<and> ex_getTime ''1970-01-01T00:00:00.000Z'' \<le> ex_getTime (pr_created_at_pr ex_pr)
   \<and> ex_getTime (pr_created_at_pr ex_pr) \<le> ex_getTime ''1970-01-01T03:00:00.000Z''
   \<and> ex_getTime ''1970-01-01T03:00:00.000Z'' \<le> 18000000
   \<and> coding_time_hours ex_metric + review_time_hours ex_metric
        + merge_to_deploy_hours ex_metric = total_lead_time_hours ex_metric"
proof -
  have h: "pr_first_commit_at ex_pr = Some ''1970-01-01T00:00:00.000Z''"
    "pr_merged_at ex_pr = Some ''1970-01-01T03:00:00.000Z''"
    "deployed_at ex_metric = Some 18000000"
    "ex_getTime ''1970-01-01T00:00:00.000Z'' \<le> ex_getTime (pr_created_at_pr ex_pr)"
    "ex_getTime (pr_created_at_pr ex_pr) \<le> ex_getTime ''1970-01-01T03:00:00.000Z''"
    "ex_getTime ''1970-01-01T03:00:00.000Z'' \<le> 18000000"
    by (simp_all add: ex_pr_fields ex_metric_def ex_getTime_values)
  from phase_durations_sum_to_total [OF ex_calc h] have
    "coding_time_hours ex_metric + review_time_hours ex_metric
        + merge_to_deploy_hours ex_metric = total_lead_time_hours ex_metric"
    by blast
  with ex_calc h show ?thesis by blast
qed

subsection \<open>The matcher\<close>

lemma sorted_first:
  "sorted (map f ys) \<Longrightarrow> ys = y # zs \<Longrightarrow> \<forall>x\<in>set ys. f y \<le> f x"
  by auto

lemma sort_key_Nil_iff: "sort_key f xs = [] \<longleftrightarrow> xs = []"
  by (metis length_sort length_0_conv)

lemma sql_eq_iff:
  "sql_eq a b \<longleftrightarrow> (\<exists>sha. a = Some sha \<and> b = Some sha)"
  by (auto simp: sql_eq_def split: option.splits)

lemma findDeploymentForPR_exact:
  assumes "db_fault db = None" and "exactSql db rid pr = d # ds"
  shows "findDeploymentForPR db rid pr = Inr (Some d)"
  using assms by (simp add: findDeploymentForPR_def db_get_def)

lemma findDeploymentForPR_fallback:
  assumes "db_fault db = None" and "exactSql db rid pr = []"
  shows "findDeploymentForPR db rid pr =
           Inr (case fallbackSql db rid pr of [] \<Rightarrow> None | row # _ \<Rightarrow> Some row)"
  using assms by (simp add: findDeploymentForPR_def db_get_def)

lemma findDeploymentForPR_answers:
  "db_fault db = None \<Longrightarrow> \<exists>dep. findDeploymentForPR db rid pr = Inr dep"
  by (simp add: findDeploymentForPR_def db_get_def split: list.splits)

lemma set_exactSql:
  "pr_merged_at pr = Some g \<Longrightarrow>
   set (exactSql db rid pr) =
     {d \<in> set (deployments db). dep_repository_id d = rid \<and> g \<le> deployment_date d
        \<and> (\<exists>sha. commit_sha d = Some sha
              \<and> (pr_head_sha pr = Some sha \<or> pr_merge_sha pr = Some sha))}"
  by (auto simp: exactSql_def sql_ge_def sql_eq_iff)

lemma set_fallbackSql:
  "pr_merged_at pr = Some g \<Longrightarrow>
   set (fallbackSql db rid pr) =
     {d \<in> set (deployments db). dep_repository_id d = rid \<and> g \<le> deployment_date d}"
  by (auto simp: fallbackSql_def sql_ge_def)

lemma exactSql_first:
  assumes "exactSql db rid pr = d # ds"
  shows "d \<in> set (exactSql db rid pr)"
    and "\<forall>e\<in>set (exactSql db rid pr). deployment_date d \<le> deployment_date e"
proof -
  show "d \<in> set (exactSql db rid pr)" using assms by simp
  have "sorted (map deployment_date (exactSql db rid pr))"
    by (simp add: exactSql_def)
  then show "\<forall>e\<in>set (exactSql db rid pr). deployment_date d \<le> deployment_date e"
    using assms by (rule sorted_first)
qed

lemma fallbackSql_first:
  assumes "fallbackSql db rid pr = d # ds"
  shows "d \<in> set (fallbackSql db rid pr)"
    and "\<forall>e\<in>set (fallbackSql db rid pr). deployment_date d \<le> deployment_date e"
proof -
  show "d \<in> set (fallbackSql db rid pr)" using assms by simp
  have "sorted (map deployment_date (fallbackSql db rid pr))"
    by (simp add: fallbackSql_def)
  then show "\<forall>e\<in>set (fallbackSql db rid pr). deployment_date d \<le> deployment_date e"
    using assms by (rule sorted_first)
qed

text \<open>
  What the two queries compute, in the order of the stored texts: among the deployments
  of the repository whose date text is at or after the merge text, a least one of the
  head or merge commit; failing that a least one; none exactly when there is no such
  deployment.
\<close>

lemma findDeploymentForPR_in_text_order:
  fixes db :: database and repositoryId :: string and pr :: pull_request
    and mergedText :: string
  defines "later \<equiv> {d \<in> set (deployments db).
             dep_repository_id d = repositoryId \<and> mergedText \<le> deployment_date d}"
  defines "exact \<equiv> {d \<in> set (deployments db).
             dep_repository_id d = repositoryId \<and> mergedText \<le> deployment_date d
             \<and> (\<exists>sha. commit_sha d = Some sha
                   \<and> (pr_head_sha pr = Some sha \<or> pr_merge_sha pr = Some sha))}"
  assumes merged: "pr_merged_at pr = Some mergedText" and answers: "db_fault db = None"
  shows "(exact \<noteq> {} \<longrightarrow>
            (\<exists>d\<in>exact. findDeploymentForPR db repositoryId pr = Inr (Some d)
               \<and> (\<forall>e\<in>exact. deployment_date d \<le> deployment_date e)))
       \<and> (exact = {} \<and> later \<noteq> {} \<longrightarrow>
            (\<exists>d\<in>later. findDeploymentForPR db repositoryId pr = Inr (Some d)
               \<and> (\<forall>e\<in>later. deployment_date d \<le> deployment_date e)))
       \<and> (findDeploymentForPR db repositoryId pr = Inr None \<longleftrightarrow> later = {})"
proof -
  have ex: "set (exactSql db repositoryId pr) = exact"
    unfolding exact_def by (rule set_exactSql [OF merged])
  have la: "set (fallbackSql db repositoryId pr) = later"
    unfolding later_def by (rule set_fallbackSql [OF merged])
  have sub: "exact \<subseteq> later" unfolding exact_def later_def by auto
  show ?thesis
  proof (cases "exactSql db repositoryId pr")
    case Nil
    with ex have e0: "exact = {}" by simp
    show ?thesis
    proof (cases "fallbackSql db repositoryId pr")
      case Nil2: Nil
      with la have "later = {}" by simp
      with e0 Nil Nil2 answers show ?thesis
        by (simp add: findDeploymentForPR_fallback)
    next
      case (Cons d ds)
      from fallbackSql_first [OF Cons] la
      have "d \<in> later" "\<forall>e\<in>later. deployment_date d \<le> deployment_date e" by simp_all
      moreover have "findDeploymentForPR db repositoryId pr = Inr (Some d)"
        using Nil Cons answers by (simp add: findDeploymentForPR_fallback)
      ultimately show ?thesis using e0 by auto
    qed
  next
    case (Cons d ds)
    from exactSql_first [OF Cons] ex
    have "d \<in> exact" "\<forall>e\<in>exact. deployment_date d \<le> deployment_date e" by simp_all
    moreover have "findDeploymentForPR db repositoryId pr = Inr (Some d)"
      using Cons answers by (simp add: findDeploymentForPR_exact)
    ultimately show ?thesis using sub by auto
  qed
qed

text \<open>
  Claim C2 says that the matcher returns the earliest deployment at or after the merge
  (of the change's commit, if there is one), and none exactly when no deployment at or
  after the merge exists. The queries compare the stored texts, not the times, and the
  texts of one repository come in more than one format. With a tag deployment dated
  \<open>04:00:00.000+02:00\<close> (02:00 UTC) and a merge at \<open>03:00:00.000Z\<close> the matcher returns
  the deployment, made an hour before the merge, and the metric computed from it has a
  merge-to-deploy time of -1 hour. With a deployment of the merge commit
  dated \<open>04:42:42-07:00\<close> (11:42:42 UTC) and a merge at \<open>10:00:00.000Z\<close> it returns
  none, although that deployment is after the merge.
\<close>

theorem matcher_compares_texts_not_times:
  "pr_merged_at ex_pr = Some ''1970-01-01T03:00:00.000Z''
   \<and> deployments ex_db_east = [ex_dep_east]
   \<and> findDeploymentForPR ex_db_east ''acme-api'' ex_pr = Inr (Some ex_dep_east)
   \<and> ex_getTime (deployment_date ex_dep_east) < ex_getTime ''1970-01-01T03:00:00.000Z''
   \<and> calculatePRLeadTime ex_getTime ex_db_east ''acme-api'' ex_pr = Inr (Some ex_metric_east)
   \<and> merge_to_deploy_hours ex_metric_east = - 1
   \<and> pr_merged_at ex_pr_late = Some ''1970-01-01T10:00:00.000Z''
   \<and> deployments ex_db_west = [ex_dep_west]
   \<and> dep_repository_id ex_dep_west = ''acme-api''
   \<and> commit_sha ex_dep_west = pr_merge_sha ex_pr_late
   \<and> ex_getTime ''1970-01-01T10:00:00.000Z'' \<le> ex_getTime (deployment_date ex_dep_west)
   \<and> findDeploymentForPR ex_db_west ''acme-api'' ex_pr_late = Inr None"
proof -
  have east: "findDeploymentForPR ex_db_east ''acme-api'' ex_pr = Inr (Some ex_dep_east)"
    by (simp add: findDeploymentForPR_def db_get_def exactSql_def fallbackSql_def
          ex_db_east_def ex_store_fields ex_pr_fields ex_dep_east_def sql_ge_def sql_eq_def)
  have metric: "calculatePRLeadTime ex_getTime ex_db_east ''acme-api'' ex_pr
                  = Inr (Some ex_metric_east)"
    by (simp add: calculatePRLeadTime_def Let_def js_not_def east ex_pr_fields
          calculateHoursDifference_def deployment_id_of_def ex_metric_east_def
          ex_dep_east_def ex_getTime_values)
  have hours: "merge_to_deploy_hours ex_metric_east = - 1"
    by (simp add: ex_metric_east_def)
  have late: "pr_merged_at ex_pr_late = Some ''1970-01-01T10:00:00.000Z''"
    "pr_merge_sha ex_pr_late = Some ''def''" "pr_head_sha ex_pr_late = Some ''abc''"
    by (simp_all add: ex_pr_late_def ex_pr_def)
  have west: "findDeploymentForPR ex_db_west ''acme-api'' ex_pr_late = Inr None"
    by (simp add: findDeploymentForPR_def db_get_def exactSql_def fallbackSql_def
          ex_db_west_def ex_store_fields late ex_dep_west_def sql_ge_def sql_eq_def)
  have times:
    "ex_getTime (deployment_date ex_dep_east) < ex_getTime ''1970-01-01T03:00:00.000Z''"
    "ex_getTime ''1970-01-01T10:00:00.000Z'' \<le> ex_getTime (deployment_date ex_dep_west)"
    by (simp_all add: ex_dep_east_def ex_dep_west_def ex_getTime_values)
  have rest: "deployments ex_db_east = [ex_dep_east]" "deployments ex_db_west = [ex_dep_west]"
    "dep_repository_id ex_dep_west = ''acme-api''"
    "commit_sha ex_dep_west = pr_merge_sha ex_pr_late"
    by (simp_all add: ex_db_east_def ex_db_west_def ex_store_fields ex_dep_west_def late)
  from east metric hours west times rest late(1) ex_pr_fields(2) show ?thesis by blast
qed

subsection \<open>Phase durations\<close>

text \<open>
  Claim C3. For a change with first commit and merge time present for which the
  matcher finds no deployment, the computation does not fail: it yields a metric whose
  \<open>deployed_at\<close> is the merge time, whose merge-to-deploy time is 0 and whose total lead
  time is the commit-to-merge time, the hours between first commit and merge.
\<close>

theorem no_deployment_uses_merge_time:
  assumes "pr_first_commit_at pr = Some firstCommitAt" and "firstCommitAt \<noteq> []"
    and "pr_merged_at pr = Some mergedAt" and "mergedAt \<noteq> []"
    and "findDeploymentForPR db repositoryId pr = Inr None"
  shows "\<exists>m. calculatePRLeadTime getTime db repositoryId pr = Inr (Some m)
           \<and> deployed_at m = Some (getTime mergedAt)
           \<and> merge_to_deploy_hours m = 0
           \<and> commit_to_merge_hours m
               = calculateHoursDifference (getTime firstCommitAt) (getTime mergedAt)
           \<and> total_lead_time_hours m = commit_to_merge_hours m"
  using assms by (simp add: calculatePRLeadTime_def Let_def js_not_def)

theorem no_deployment_uses_merge_time_witness:
  "pr_first_commit_at ex_pr_inverted = Some ''1970-01-01T02:00:00.000Z''
   \<and> ''1970-01-01T02:00:00.000Z'' \<noteq> []
   \<and> pr_merged_at ex_pr_inverted = Some ''1970-01-01T01:00:00.000Z''
   \<and> ''1970-01-01T01:00:00.000Z'' \<noteq> []
   \<and> findDeploymentForPR ex_db_empty ''acme-api'' ex_pr_inverted = Inr None
   \<and> (\<exists>m. calculatePRLeadTime ex_getTime ex_db_empty ''acme-api'' ex_pr_inverted
             = Inr (Some m)
           \<and> deployed_at m = Some (ex_getTime ''1970-01-01T01:00:00.000Z'')
           \<and> merge_to_deploy_hours m = 0
           \<and> commit_to_merge_hours m
               = calculateHoursDifference (ex_getTime ''1970-01-01T02:00:00.000Z'')
                   (ex_getTime ''1970-01-01T01:00:00.000Z'')
           \<and> total_lead_time_hours m = commit_to_merge_hours m)"
proof -
  have ne: "''1970-01-01T02:00:00.000Z'' \<noteq> []" "''1970-01-01T01:00:00.000Z'' \<noteq> []"
    by simp_all
  from no_deployment_uses_merge_time
         [OF ex_pr_inverted_fields(1) ne(1) ex_pr_inverted_fields(2) ne(2) ex_find_empty,
          of ex_getTime]
       ex_pr_inverted_fields(1,2) ne ex_find_empty
  show ?thesis by blast
qed

text \<open>
  Claim C4 says that every duration field of a metric is clamped to be non-negative.
  Only the coding and the review time pass through \<open>Math.max(0, _)\<close>. For a change
  whose first commit (2h) is later than its merge (1h) and that has no deployment, the
  total lead time and the commit-to-merge time are both -1 hour.
\<close>

theorem durations_not_all_clamped:
  "calculatePRLeadTime ex_getTime ex_db_empty ''acme-api'' ex_pr_inverted
     = Inr (Some ex_metric_inverted)
   \<and> total_lead_time_hours ex_metric_inverted < 0
   \<and> commit_to_merge_hours ex_metric_inverted < 0"
  by (simp add: ex_calc_inverted) (simp add: ex_metric_inverted_def)

text \<open>
  Claim C4, amended. In every computed metric only the coding and the review time are
  clamped: they are the maximum of 0 and the hours from first commit to opening, and
  from opening to merge, and so are not negative. The other four duration fields are
  not clamped: the commit-to-merge time, the merge-to-deploy time (also stored as
  deployment time) and the total lead time are the signed hours from first commit to
  merge, from merge to deployment and from first commit to deployment, where the
  deployment time is that of the matched deployment, or the merge time when none is
  matched.
\<close>

theorem duration_clamping:
  assumes "calculatePRLeadTime getTime db repositoryId pr = Inr (Some m)"
  shows "\<exists>firstCommitAt mergedAt deployment deployedAt.
           pr_first_commit_at pr = Some firstCommitAt \<and> pr_merged_at pr = Some mergedAt
         \<and> findDeploymentForPR db repositoryId pr = Inr deployment
         \<and> deployedAt = (case deployment of
                           Some d \<Rightarrow> getTime (deployment_date d)
                         | None \<Rightarrow> getTime mergedAt)
         \<and> deployed_at m = Some deployedAt
         \<and> coding_time_hours m =
             max 0 (calculateHoursDifference (getTime firstCommitAt)
                      (getTime (pr_created_at_pr pr)))
         \<and> review_time_hours m =
             max 0 (calculateHoursDifference (getTime (pr_created_at_pr pr))
                      (getTime mergedAt))
         \<and> 0 \<le> coding_time_hours m \<and> 0 \<le> review_time_hours m
         \<and> commit_to_merge_hours m =
             calculateHoursDifference (getTime firstCommitAt) (getTime mergedAt)
         \<and> merge_to_deploy_hours m =
             calculateHoursDifference (getTime mergedAt) deployedAt
         \<and> deployment_time_hours m =
             calculateHoursDifference (getTime mergedAt) deployedAt
         \<and> total_lead_time_hours m =
             calculateHoursDifference (getTime firstCommitAt) deployedAt"
proof -
  from assms obtain f g and dep :: "deployment option" where m:
    "pr_first_commit_at pr = Some f" "pr_merged_at pr = Some g"
    "findDeploymentForPR db repositoryId pr = Inr dep"
    "coding_time_hours m =
       max 0 (calculateHoursDifference (getTime f) (getTime (pr_created_at_pr pr)))"
    "review_time_hours m =
       max 0 (calculateHoursDifference (getTime (pr_created_at_pr pr)) (getTime g))"
    "merge_to_deploy_hours m =
       (case dep of
          Some d \<Rightarrow> calculateHoursDifference (getTime g) (getTime (deployment_date d))
        | None \<Rightarrow> 0)"
    "deployment_time_hours m =
       (case dep of
          Some d \<Rightarrow> calculateHoursDifference (getTime g) (getTime (deployment_date d))
        | None \<Rightarrow> 0)"
    "total_lead_time_hours m =
       (case dep of
          Some d \<Rightarrow> calculateHoursDifference (getTime f) (getTime (deployment_date d))
        | None \<Rightarrow> calculateHoursDifference (getTime f) (getTime g))"
    "commit_to_merge_hours m = calculateHoursDifference (getTime f) (getTime g)"
    "deployed_at m =
       Some (case dep of Some d \<Rightarrow> getTime (deployment_date d) | None \<Rightarrow> getTime g)"
    by (rule calculatePRLeadTime_metric) blast
  let ?deployedAt = "case dep of Some d \<Rightarrow> getTime (deployment_date d) | None \<Rightarrow> getTime g"
  have zero: "calculateHoursDifference (getTime g) (getTime g) = 0"
    by (simp add: calculateHoursDifference_def)
  have "merge_to_deploy_hours m = calculateHoursDifference (getTime g) ?deployedAt"
    "deployment_time_hours m = calculateHoursDifference (getTime g) ?deployedAt"
    "total_lead_time_hours m = calculateHoursDifference (getTime f) ?deployedAt"
    using m(6,7,8) zero by (cases dep; simp)+
  moreover have "0 \<le> coding_time_hours m" "0 \<le> review_time_hours m"
    using m(4,5) by simp_all
  ultimately show ?thesis using m(1,2,3,4,5,9,10) by blast
qed

theorem duration_clamping_witness:
  "calculatePRLeadTime ex_getTime ex_db ''acme-api'' ex_pr = Inr (Some ex_metric)
   \<and> coding_time_hours ex_metric = 1 \<and> review_time_hours ex_metric = 2
   \<and> commit_to_merge_hours ex_metric = 3 \<and> merge_to_deploy_hours ex_metric = 2
   \<and> deployment_time_hours ex_metric = 2 \<and> total_lead_time_hours ex_metric = 5
   \<and> calculatePRLeadTime ex_getTime ex_db_empty ''acme-api'' ex_pr_inverted
       = Inr (Some ex_metric_inverted)
   \<and> 0 \<le> coding_time_hours ex_metric_inverted
   \<and> 0 \<le> review_time_hours ex_metric_inverted
   \<and> (\<exists>deployedAt. deployed_at ex_metric_inverted = Some deployedAt
        \<and> merge_to_deploy_hours ex_metric_inverted
            = calculateHoursDifference (ex_getTime ''1970-01-01T01:00:00.000Z'') deployedAt
        \<and> total_lead_time_hours ex_metric_inverted
            = calculateHoursDifference (ex_getTime ''1970-01-01T02:00:00.000Z'') deployedAt)"
proof -
  from duration_clamping [OF ex_calc_inverted] ex_pr_inverted_fields(1,2)
  have inv: "0 \<le> coding_time_hours ex_metric_inverted"
    "0 \<le> review_time_hours ex_metric_inverted"
    "\<exists>deployedAt. deployed_at ex_metric_inverted = Some deployedAt
        \<and> merge_to_deploy_hours ex_metric_inverted
            = calculateHoursDifference (ex_getTime ''1970-01-01T01:00:00.000Z'') deployedAt
        \<and> total_lead_time_hours ex_metric_inverted
            = calculateHoursDifference (ex_getTime ''1970-01-01T02:00:00.000Z'') deployedAt"
    by auto
  from duration_clamping [OF ex_calc] ex_pr_fields(1,2,3) ex_find
  have "coding_time_hours ex_metric = 1 \<and> review_time_hours ex_metric = 2
   \<and> commit_to_merge_hours ex_metric = 3 \<and> merge_to_deploy_hours ex_metric = 2
   \<and> deployment_time_hours ex_metric = 2 \<and> total_lead_time_hours ex_metric = 5"
    by (auto simp: calculateHoursDifference_def ex_getTime_values ex_dep3_def)
  with inv ex_calc ex_calc_inverted show ?thesis by blast
qed

text \<open>
  Claim C10. In every metric the computer produces, \<open>deployment_time_hours\<close> equals
  \<open>merge_to_deploy_hours\<close>, with a matched deployment and without one.
\<close>

theorem deployment_time_equals_merge_to_deploy:
  assumes "calculatePRLeadTime getTime db repositoryId pr = Inr (Some m)"
  shows "deployment_time_hours m = merge_to_deploy_hours m"
  using assms unfolding calculatePRLeadTime_def Let_def
  by (auto split: option.splits sum.splits if_splits)

theorem deployment_time_equals_merge_to_deploy_witness:
  "calculatePRLeadTime ex_getTime ex_db ''acme-api'' ex_pr = Inr (Some ex_metric)
   \<and> deployment_time_hours ex_metric = merge_to_deploy_hours ex_metric
   \<and> calculatePRLeadTime ex_getTime ex_db_empty ''acme-api'' ex_pr_inverted
       = Inr (Some ex_metric_inverted)
   \<and> deployment_time_hours ex_metric_inverted = merge_to_deploy_hours ex_metric_inverted"
  using deployment_time_equals_merge_to_deploy [OF ex_calc]
        deployment_time_equals_merge_to_deploy [OF ex_calc_inverted]
        ex_calc ex_calc_inverted
  by simp

text \<open>
  Claim C5. The classifier maps an average in hours to one of four categories with
  inclusive upper bounds: at most 24 is Elite, above 24 and at most 168 is High, above
  168 and at most 720 is Medium, above 720 is Low; so 24 is Elite, 24.0001 High, 168
  High, 168.0001 Medium, 720 Medium and 720.0001 Low.
\<close>

theorem categorizeLeadTime_bands:
  "(hours \<le> 24 \<longrightarrow> category (categorizeLeadTime hours) = ''Elite'')
   \<and> (24 < hours \<and> hours \<le> 168 \<longrightarrow> category (categorizeLeadTime hours) = ''High'')
   \<and> (168 < hours \<and> hours \<le> 720 \<longrightarrow> category (categorizeLeadTime hours) = ''Medium'')
   \<and> (720 < hours \<longrightarrow> category (categorizeLeadTime hours) = ''Low'')
   \<and> category (categorizeLeadTime 24) = ''Elite''
   \<and> category (categorizeLeadTime (240001 / 10000)) = ''High''
   \<and> category (categorizeLeadTime 168) = ''High''
   \<and> category (categorizeLeadTime (1680001 / 10000)) = ''Medium''
   \<and> category (categorizeLeadTime 720) = ''Medium''
   \<and> category (categorizeLeadTime (7200001 / 10000)) = ''Low''"
  by (simp add: categorizeLeadTime_def)

theorem categorizeLeadTime_bands_witness:
  "(100::real) \<le> 168 \<and> (24::real) < 100 \<and> category (categorizeLeadTime 100) = ''High''
   \<and> (2::real) \<le> 24 \<and> category (categorizeLeadTime 2) = ''Elite''
   \<and> (168::real) < 200 \<and> (200::real) \<le> 720 \<and> category (categorizeLeadTime 200) = ''Medium''
   \<and> (720::real) < 1000 \<and> category (categorizeLeadTime 1000) = ''Low''"
  using categorizeLeadTime_bands [of 100] categorizeLeadTime_bands [of 2]
        categorizeLeadTime_bands [of 200] categorizeLeadTime_bands [of 1000]
  by simp

subsection \<open>Changes without timestamps\<close>

lemma calculateLeadTime_loop_append:
  "calculateLeadTime_loop getTime rid (xs @ ys) s
     = calculateLeadTime_loop getTime rid ys (calculateLeadTime_loop getTime rid xs s)"
proof (induction getTime rid xs s rule: calculateLeadTime_loop.induct)
  case (1 getTime repositoryId db leadTimeMetrics)
  show ?case by simp
next
  case (2 getTime repositoryId pr prs db leadTimeMetrics)
  then show ?case by (simp split: sum.splits option.splits)
qed

lemma calculatePRLeadTime_None_iff:
  "calculatePRLeadTime getTime db rid pr = Inr None
     \<longleftrightarrow> js_not (pr_first_commit_at pr) \<or> js_not (pr_merged_at pr)"
  unfolding calculatePRLeadTime_def Let_def js_not_def
  by (auto split: option.splits sum.splits)

text \<open>
  Claim C7. \<open>calculatePRLeadTime\<close> returns none exactly when the first commit time or
  the merge time of the change is absent (NULL or empty, the values \<open>!\<close> takes for
  absent); the loop of the caller then skips the change, so that no row is stored and
  no metric collected for it; and when both are present (and the store answers the
  matcher's queries) the result is a metric.
\<close>

theorem missing_timestamps_return_none:
  "(calculatePRLeadTime getTime db repositoryId pr = Inr None
      \<longleftrightarrow> (pr_first_commit_at pr = None \<or> pr_first_commit_at pr = Some [])
          \<or> (pr_merged_at pr = None \<or> pr_merged_at pr = Some []))
   \<and> ((pr_first_commit_at pr = None \<or> pr_first_commit_at pr = Some [])
        \<or> (pr_merged_at pr = None \<or> pr_merged_at pr = Some []) \<longrightarrow>
        calculateLeadTime_loop getTime repositoryId (before @ pr # after) (db0, metrics)
          = calculateLeadTime_loop getTime repositoryId (before @ after) (db0, metrics))
   \<and> ((\<exists>firstCommitAt. pr_first_commit_at pr = Some firstCommitAt \<and> firstCommitAt \<noteq> [])
        \<and> (\<exists>mergedAt. pr_merged_at pr = Some mergedAt \<and> mergedAt \<noteq> [])
        \<and> db_fault db = None \<longrightarrow>
        (\<exists>m. calculatePRLeadTime getTime db repositoryId pr = Inr (Some m)))"
proof (intro conjI impI)
  have absent: "js_not (pr_first_commit_at pr) \<or> js_not (pr_merged_at pr)
      \<longleftrightarrow> (pr_first_commit_at pr = None \<or> pr_first_commit_at pr = Some [])
          \<or> (pr_merged_at pr = None \<or> pr_merged_at pr = Some [])"
    by (auto simp: js_not_def split: option.splits)
  then show "calculatePRLeadTime getTime db repositoryId pr = Inr None
      \<longleftrightarrow> (pr_first_commit_at pr = None \<or> pr_first_commit_at pr = Some [])
          \<or> (pr_merged_at pr = None \<or> pr_merged_at pr = Some [])"
    by (simp add: calculatePRLeadTime_None_iff)
  {
    assume "(pr_first_commit_at pr = None \<or> pr_first_commit_at pr = Some [])
        \<or> (pr_merged_at pr = None \<or> pr_merged_at pr = Some [])"
    with absent have a: "js_not (pr_first_commit_at pr) \<or> js_not (pr_merged_at pr)"
      by simp
    obtain db1 ms1 where
      s1: "calculateLeadTime_loop getTime repositoryId before (db0, metrics) = (db1, ms1)"
      by (cases "calculateLeadTime_loop getTime repositoryId before (db0, metrics)")
    from a have "calculatePRLeadTime getTime db1 repositoryId pr = Inr None"
      by (simp add: calculatePRLeadTime_None_iff)
    then have "calculateLeadTime_loop getTime repositoryId (pr # after) (db1, ms1)
                 = calculateLeadTime_loop getTime repositoryId after (db1, ms1)"
      by simp
    then show "calculateLeadTime_loop getTime repositoryId (before @ pr # after) (db0, metrics)
            = calculateLeadTime_loop getTime repositoryId (before @ after) (db0, metrics)"
      by (simp add: calculateLeadTime_loop_append s1)
  }
  {
    assume "(\<exists>firstCommitAt. pr_first_commit_at pr = Some firstCommitAt \<and> firstCommitAt \<noteq> [])
        \<and> (\<exists>mergedAt. pr_merged_at pr = Some mergedAt \<and> mergedAt \<noteq> [])
        \<and> db_fault db = None"
    then obtain f g where p: "pr_first_commit_at pr = Some f" "f \<noteq> []"
      "pr_merged_at pr = Some g" "g \<noteq> []"
      and "db_fault db = None" by blast
    then obtain dep where "findDeploymentForPR db repositoryId pr = Inr dep"
      using findDeploymentForPR_answers by blast
    with p show "\<exists>m. calculatePRLeadTime getTime db repositoryId pr = Inr (Some m)"
      by (simp add: calculatePRLeadTime_def Let_def js_not_def)
  }
qed

theorem missing_timestamps_return_none_witness:
  "pr_first_commit_at ex_pr_no_commit = None
   \<and> calculatePRLeadTime ex_getTime ex_db ''acme-api'' ex_pr_no_commit = Inr None
   \<and> calculateLeadTime_loop ex_getTime ''acme-api'' ([] @ ex_pr_no_commit # []) (ex_db, [])
       = calculateLeadTime_loop ex_getTime ''acme-api'' ([] @ []) (ex_db, [])
   \<and> pr_first_commit_at ex_pr_empty_commit = Some []
   \<and> calculatePRLeadTime ex_getTime ex_db ''acme-api'' ex_pr_empty_commit = Inr None
   \<and> pr_first_commit_at ex_pr = Some ''1970-01-01T00:00:00.000Z''
   \<and> pr_merged_at ex_pr = Some ''1970-01-01T03:00:00.000Z''
   \<and> db_fault ex_db = None
   \<and> (\<exists>m. calculatePRLeadTime ex_getTime ex_db ''acme-api'' ex_pr = Inr (Some m))"
proof -
  have a: "pr_first_commit_at ex_pr_no_commit = None"
    "pr_first_commit_at ex_pr_empty_commit = Some []"
    by (simp_all add: ex_pr_no_commit_def ex_pr_empty_commit_def)
  have b: "db_fault ex_db = None" by (simp add: ex_db_def ex_store_fields)
  from missing_timestamps_return_none
         [of ex_getTime ex_db "''acme-api''" ex_pr_no_commit "[]" "[]" ex_db "[]"] a(1)
  have c: "calculatePRLeadTime ex_getTime ex_db ''acme-api'' ex_pr_no_commit = Inr None"
    "calculateLeadTime_loop ex_getTime ''acme-api'' ([] @ ex_pr_no_commit # []) (ex_db, [])
       = calculateLeadTime_loop ex_getTime ''acme-api'' ([] @ []) (ex_db, [])"
    by simp_all
  from missing_timestamps_return_none
         [of ex_getTime ex_db "''acme-api''" ex_pr_empty_commit "[]" "[]" ex_db "[]"] a(2)
  have c': "calculatePRLeadTime ex_getTime ex_db ''acme-api'' ex_pr_empty_commit = Inr None"
    by simp
  from missing_timestamps_return_none
         [of ex_getTime ex_db "''acme-api''" ex_pr "[]" "[]" ex_db "[]"] ex_pr_fields(1,2) b
  have d: "\<exists>m. calculatePRLeadTime ex_getTime ex_db ''acme-api'' ex_pr = Inr (Some m)"
    by simp
  from a b c c' d ex_pr_fields(1,2) show ?thesis by blast
qed

section \<open>Properties of the aggregator and the insight generator\<close>

lemma map_insort_key:
  "map f (insort_key f x ys) = insort (f x) (map f ys)"
  by (induction ys) simp_all

lemma map_sort_key: "map f (sort_key f xs) = sort (map f xs)"
  by (induction xs) (simp_all add: map_insort_key)

lemma sorted_last_Max:
  fixes xs :: "'a::linorder list"
  assumes "sorted xs" and "xs \<noteq> []"
  shows "last xs = Max (set xs)"
proof (rule sym, rule Max_eqI)
  show "finite (set xs)" by simp
  show "last xs \<in> set xs" using assms(2) by simp
  fix y assume "y \<in> set xs"
  then obtain i where i: "i < length xs" "y = xs ! i" by (auto simp: in_set_conv_nth)
  then have "xs ! i \<le> xs ! (length xs - 1)"
    using assms(1) by (intro sorted_nth_mono) auto
  with i assms(2) show "y \<le> last xs" by (simp add: last_conv_nth)
qed

lemma singleton_keys:
  fixes ys :: "'a list"
  assumes "distinct ys" and "set ys = {a}"
  shows "ys = [a]"
proof (cases ys)
  case Nil with assms(2) show ?thesis by simp
next
  case (Cons y zs)
  with assms have "y = a" "set zs \<subseteq> {a}" "y \<notin> set zs" by auto
  then have "zs = []" by (cases zs) auto
  with Cons \<open>y = a\<close> show ?thesis by simp
qed

lemma set_repository_keys [simp]:
  "set (repository_keys rows) = repository_id ` set rows"
  by (simp add: repository_keys_def)

lemma distinct_repository_keys [simp]: "distinct (repository_keys rows)"
  by (simp add: repository_keys_def)

lemma repository_keys_single:
  assumes "rows \<noteq> []" and "\<forall>ltm\<in>set rows. repository_id ltm = r"
  shows "repository_keys rows = [r]"
proof -
  have "set (repository_keys rows) = {r}"
    using assms by (cases rows) auto
  with distinct_repository_keys show ?thesis by (rule singleton_keys)
qed

subsection \<open>Percentiles\<close>

lemma length_percentile_partition [simp]:
  "length (percentile_partition r part) = length part"
  by (simp add: percentile_partition_def)

lemma nth_percentile_partition:
  assumes "i < length part"
  shows "percentile_partition r part ! i =
           \<lparr> pc_repository_id = r,
             pc_total_lead_time_hours = sort (map total_lead_time_hours part) ! i,
             percentile = real (Suc i) * 100 / real (length part) \<rparr>"
  using assms
  by (simp add: percentile_partition_def nth_enumerate_eq map_sort_key [symmetric])

lemma map_total_percentile_partition:
  "map pc_total_lead_time_hours (percentile_partition r part)
     = sort (map total_lead_time_hours part)"
  by (rule nth_equalityI) (simp_all add: nth_percentile_partition)

lemma map_percentile_percentile_partition:
  "map percentile (percentile_partition r part)
     = map (\<lambda>i. real i * 100 / real (length part)) [1..<Suc (length part)]"
proof (rule nth_equalityI)
  show "length (map percentile (percentile_partition r part)) =
    length (map (\<lambda>i. real i * 100 / real (length part)) [1..<Suc (length part)])"
    by (simp del: upt_Suc)
next
  fix i assume "i < length (map percentile (percentile_partition r part))"
  then have i: "i < length part" by simp
  then have "[1..<Suc (length part)] ! i = Suc i"
    using nth_upt [of 1 i "Suc (length part)"] by (simp del: upt_Suc)
  with i show "map percentile (percentile_partition r part) ! i =
      map (\<lambda>i. real i * 100 / real (length part)) [1..<Suc (length part)] ! i"
    by (simp add: nth_percentile_partition del: upt_Suc)
qed

lemma findPercentile_100_partition:
  assumes "part \<noteq> []"
  shows "findPercentile (percentile_partition r part) 100
           = Some (Max (set (map total_lead_time_hours part)))"
proof -
  let ?n = "length part"
  let ?data = "percentile_partition r part"
  let ?hs = "sort (map total_lead_time_hours part)"
  from assms have n: "0 < ?n" by simp
  have last_ok: "100 \<le> percentile (?data ! (?n - 1))"
    using n by (simp add: nth_percentile_partition)
  have before: "\<forall>j<?n - 1. \<not> 100 \<le> percentile (?data ! j)"
  proof (intro allI impI)
    fix j assume j: "j < ?n - 1"
    then have "real (Suc j) < real ?n" by simp
    then have "real (Suc j) * 100 / real ?n < 100"
      using n by (simp add: field_simps)
    with j show "\<not> 100 \<le> percentile (?data ! j)"
      by (simp add: nth_percentile_partition)
  qed
  have "find (\<lambda>d. 100 \<le> percentile d) ?data = Some (?data ! (?n - 1))"
    unfolding find_Some_iff using n last_ok before
    by (intro exI [of _ "?n - 1"]) simp
  then have "findPercentile ?data 100 = Some (?hs ! (?n - 1))"
    using n by (simp add: findPercentile_def nth_percentile_partition)
  moreover have "?hs ! (?n - 1) = last ?hs"
    using assms by (simp add: last_conv_nth sort_key_Nil_iff)
  moreover have "last ?hs = Max (set ?hs)"
    using assms by (intro sorted_last_Max) (simp_all add: sort_key_Nil_iff)
  ultimately show ?thesis by simp
qed

text \<open>
  Claim C6. For the non-empty sequence of lead times of a repository inside the window,
  the percentile rows hold the values in ascending order, the value at position i
  (counted from 1) of n with rank i * 100 / n, and the percentile at target 100, the
  first value whose rank is at least 100, is the maximum of the sequence.
\<close>

theorem percentile_100_is_maximum:
  assumes answers: "db_fault db = None" and repo: "repositoryId \<noteq> []"
    and hours: "hours = map total_lead_time_hours
                          (metrics_in_window db (Some repositoryId) days)"
    and nonempty: "hours \<noteq> []"
  shows "\<exists>percentileData.
           dbManager_getLeadTimePercentiles db (Some repositoryId) days = Inr percentileData
           \<and> map pc_total_lead_time_hours percentileData = sort hours
           \<and> map percentile percentileData
               = map (\<lambda>i. real i * 100 / real (length hours)) [1..<Suc (length hours)]
           \<and> findPercentile percentileData 100 = Some (Max (set hours))"
proof -
  let ?rows = "metrics_in_window db (Some repositoryId) days"
  from hours nonempty have ne: "?rows \<noteq> []" by auto
  have same: "\<forall>ltm\<in>set ?rows. repository_id ltm = repositoryId"
    using repo by (simp add: metrics_in_window_def repo_condition_def)
  then have all: "filter (\<lambda>ltm. repository_id ltm = repositoryId) ?rows = ?rows"
    by simp
  have "dbManager_getLeadTimePercentiles db (Some repositoryId) days
          = Inr (percentile_partition repositoryId ?rows)"
    using answers repository_keys_single [OF ne same] all
    by (simp add: dbManager_getLeadTimePercentiles_def db_all_def Let_def)
  moreover have "length hours = length ?rows" using hours by simp
  ultimately show ?thesis
    using findPercentile_100_partition [OF ne, of repositoryId] hours
    by (simp add: map_total_percentile_partition map_percentile_percentile_partition)
qed

lemma ex_ltm_fields:
  "total_lead_time_hours (ex_ltm r p h f g d) = h"
  "commit_to_merge_hours (ex_ltm r p h f g d) = h"
  "merge_to_deploy_hours (ex_ltm r p h f g d) = 0"
  "repository_id (ex_ltm r p h f g d) = r"
  "first_commit_at (ex_ltm r p h f g d) = f"
  by (simp_all add: ex_ltm_def)

lemmas ex_ltm_defs =
  ex_ltm1_def ex_ltm2_def ex_ltm3_def ex_ltm4_def ex_ltm5_def

lemma ex_dateFilter: "dateFilter (ex_store ds ltms) 30 = Some ''2024-01-10 12:00:00''"
  by (simp add: dateFilter_def ex_store_fields ex_datetime_now_def)

lemma ex_window_acme:
  "metrics_in_window ex_metrics_db (Some ''acme-api'') 30 = [ex_ltm2, ex_ltm3, ex_ltm5]"
  by (simp add: metrics_in_window_def ex_metrics_db_def ex_dateFilter ex_store_fields
        sql_ge_def repo_condition_def ex_ltm_defs ex_ltm_fields)


theorem percentile_100_is_maximum_witness:
  "db_fault ex_metrics_db = None \<and> ''acme-api'' \<noteq> []
   \<and> [30, 6, 12] = map total_lead_time_hours
                         (metrics_in_window ex_metrics_db (Some ''acme-api'') 30)
   \<and> [30, 6, 12 :: real] \<noteq> []
   \<and> (\<exists>percentileData.
         dbManager_getLeadTimePercentiles ex_metrics_db (Some ''acme-api'') 30
           = Inr percentileData
         \<and> map pc_total_lead_time_hours percentileData = [6, 12, 30]
         \<and> map percentile percentileData = [100 / 3, 200 / 3, 100]
         \<and> findPercentile percentileData 100 = Some 30)"
proof -
  have a: "db_fault ex_metrics_db = None" by (simp add: ex_metrics_db_def ex_store_fields)
  have b: "''acme-api'' \<noteq> []" by simp
  have c: "[30, 6, 12] = map total_lead_time_hours
                         (metrics_in_window ex_metrics_db (Some ''acme-api'') 30)"
    by (simp add: ex_window_acme ex_ltm_defs ex_ltm_fields)
  have d: "[30, 6, 12 :: real] \<noteq> []" by simp
  have "\<exists>percentileData.
         dbManager_getLeadTimePercentiles ex_metrics_db (Some ''acme-api'') 30
           = Inr percentileData
         \<and> map pc_total_lead_time_hours percentileData = sort [30, 6, 12]
         \<and> map percentile percentileData
             = map (\<lambda>i. real i * 100 / real (length [30, 6, 12 :: real]))
                 [1..<Suc (length [30, 6, 12 :: real])]
         \<and> findPercentile percentileData 100 = Some (Max (set [30, 6, 12]))"
    by (rule percentile_100_is_maximum [OF a b c d])
  then have e: "\<exists>percentileData.
         dbManager_getLeadTimePercentiles ex_metrics_db (Some ''acme-api'') 30
           = Inr percentileData
         \<and> map pc_total_lead_time_hours percentileData = [6, 12, 30]
         \<and> map percentile percentileData = [100 / 3, 200 / 3, 100]
         \<and> findPercentile percentileData 100 = Some 30"
    by (simp add: upt_rec)
  from a b c d e show ?thesis by blast
qed

subsection \<open>Summaries\<close>


lemma st_repository_id_stats_of_group [simp]:
  "st_repository_id (stats_of_group db r grp) = r"
  by (simp add: stats_of_group_def)












subsection \<open>Insights\<close>

lemma getLeadTimePercentiles_answers:
  "db_fault db = None \<Longrightarrow> \<exists>p. getLeadTimePercentiles db repositoryId days = Inr p"
  by (simp add: getLeadTimePercentiles_def dbManager_getLeadTimePercentiles_def
        db_all_def Let_def)

lemma getLeadTimeStats_Nil_iff:
  assumes "db_fault db = None"
  shows "getLeadTimeStats db repositoryId days = Inr []
           \<longleftrightarrow> metrics_in_window db repositoryId days = []"
proof -
  let ?rows = "metrics_in_window db repositoryId days"
  have "repository_keys ?rows = [] \<longleftrightarrow> ?rows = []"
    using set_repository_keys [of ?rows] by (metis image_is_empty set_empty)
  with assms show ?thesis
    by (simp add: getLeadTimeStats_def db_all_def Let_def sort_key_Nil_iff)
qed

lemma getLeadTimeStats_answers:
  "db_fault db = None \<Longrightarrow> \<exists>stats. getLeadTimeStats db repositoryId days = Inr stats"
  by (simp add: getLeadTimeStats_def db_all_def Let_def)

lemma category_cases:
  "category (categorizeLeadTime hours) \<in> {''Elite'', ''High'', ''Medium'', ''Low''}"
  by (simp add: categorizeLeadTime_def Let_def)

text \<open>
  What the insight generator does: it returns the no-data object exactly when the WHERE
  clause of the aggregate query selects no stored metric, and insights with one of the
  four categories otherwise.
\<close>

lemma generateInsights_cases:
  assumes answers: "db_fault db = None"
  shows "(metrics_in_window db repositoryId days = [] \<longrightarrow>
            generateInsights db repositoryId days =
              Inr (NoData ''No lead time data available''
                    [''Set up deployment tracking'',
                     ''Ensure PRs are properly linked to deployments'']))
       \<and> (metrics_in_window db repositoryId days \<noteq> [] \<longrightarrow>
            (\<exists>c avgDays p rs.
               generateInsights db repositoryId days = Inr (Insights c avgDays p rs)
               \<and> c \<in> {''Elite'', ''High'', ''Medium'', ''Low''}))"
proof -
  let ?rows = "metrics_in_window db repositoryId days"
  obtain p where p: "getLeadTimePercentiles db repositoryId days = Inr p"
    using getLeadTimePercentiles_answers [OF answers] by blast
  obtain stats where stats: "getLeadTimeStats db repositoryId days = Inr stats"
    using getLeadTimeStats_answers [OF answers] by blast
  have nil: "stats = [] \<longleftrightarrow> ?rows = []"
    using getLeadTimeStats_Nil_iff [OF answers, of repositoryId days] stats by simp
  show ?thesis
  proof (cases stats)
    case Nil
    with stats p have "generateInsights db repositoryId days =
                Inr (NoData ''No lead time data available''
                      [''Set up deployment tracking'',
                       ''Ensure PRs are properly linked to deployments''])"
      by (simp add: generateInsights_def)
    with Nil nil show ?thesis by simp
  next
    case (Cons repoStats rest)
    with stats p obtain rs where
      "generateInsights db repositoryId days =
         Inr (Insights (category (categorizeLeadTime (avg_lead_time_hours repoStats)))
                (avg_lead_time_days repoStats) p rs)"
      by (simp add: generateInsights_def Let_def)
    moreover have "stats \<noteq> []" using Cons by simp
    ultimately show ?thesis using nil category_cases by blast
  qed
qed

text \<open>
  Claim C9 says that a repository with no stored metric in the window gets the no-data
  result instead of a category. The WHERE clause compares the stored text of the first
  commit, \<open>2024-01-10T04:18:00.000Z\<close>, with the text of the cutoff,
  \<open>2024-01-10 12:00:00\<close>: the two agree up to the day, and then \<open>T\<close> is above the
  space, so the metric is selected although its first commit is 7.7 hours before the
  cutoff. The repository has no other metric, and the generator classifies it as Elite.
\<close>

theorem insights_for_metric_before_cutoff:
  "lead_time_metrics ex_db_edge = [ex_ltm_edge]
   \<and> repository_id ex_ltm_edge = ''edge''
   \<and> first_commit_at ex_ltm_edge = ''2024-01-10T04:18:00.000Z''
   \<and> dateFilter ex_db_edge 30 = Some ''2024-01-10 12:00:00''
   \<and> metrics_in_window ex_db_edge (Some ''edge'') 30 = [ex_ltm_edge]
   \<and> generateInsights ex_db_edge (Some ''edge'') 30 =
       Inr (Insights ''Elite'' (21 / 100)
             \<lparr> p50 = Some 5, p75 = Some 5, p90 = Some 5, p95 = Some 5 \<rparr>
             [''Great lead time performance! Consider sharing practices with other teams'',
              ''Monitor for any increases in lead time as the team scales''])"
proof -
  have f: "db_fault ex_db_edge = None" "sqlite_round2 ex_db_edge = ex_round2"
    "lead_time_metrics ex_db_edge = [ex_ltm_edge]"
    by (simp_all add: ex_db_edge_def ex_store_fields)
  have e: "repository_id ex_ltm_edge = ''edge''"
    "first_commit_at ex_ltm_edge = ''2024-01-10T04:18:00.000Z''"
    "total_lead_time_hours ex_ltm_edge = 5"
    by (simp_all add: ex_ltm_edge_def ex_ltm_fields)
  have c: "dateFilter ex_db_edge 30 = Some ''2024-01-10 12:00:00''"
    by (simp add: ex_db_edge_def ex_dateFilter)
  have w: "metrics_in_window ex_db_edge (Some ''edge'') 30 = [ex_ltm_edge]"
    by (simp add: metrics_in_window_def f c e sql_ge_def repo_condition_def)
  have k: "repository_keys [ex_ltm_edge] = [''edge'']"
    by (simp add: repository_keys_def e)
  have s: "avg_lead_time_hours (stats_of_group ex_db_edge ''edge'' [ex_ltm_edge]) = 5"
    "avg_lead_time_days (stats_of_group ex_db_edge ''edge'' [ex_ltm_edge]) = 21 / 100"
    by (simp_all add: stats_of_group_def f e sql_avg_def ex_round2_def)
  have stats: "getLeadTimeStats ex_db_edge (Some ''edge'') 30
                 = Inr [stats_of_group ex_db_edge ''edge'' [ex_ltm_edge]]"
    unfolding getLeadTimeStats_def Let_def w k by (simp add: e db_all_def f)
  have rows: "dbManager_getLeadTimePercentiles ex_db_edge (Some ''edge'') 30
                = Inr [\<lparr> pc_repository_id = ''edge'', pc_total_lead_time_hours = 5,
                          percentile = 100 \<rparr>]"
    unfolding dbManager_getLeadTimePercentiles_def Let_def w k
    by (simp add: db_all_def f percentile_partition_def e)
  have pcts: "getLeadTimePercentiles ex_db_edge (Some ''edge'') 30
                = Inr \<lparr> p50 = Some 5, p75 = Some 5, p90 = Some 5, p95 = Some 5 \<rparr>"
    by (simp add: getLeadTimePercentiles_def rows findPercentile_def)
  have "generateInsights ex_db_edge (Some ''edge'') 30 =
       Inr (Insights ''Elite'' (21 / 100)
             \<lparr> p50 = Some 5, p75 = Some 5, p90 = Some 5, p95 = Some 5 \<rparr>
             [''Great lead time performance! Consider sharing practices with other teams'',
              ''Monitor for any increases in lead time as the team scales''])"
    by (simp add: generateInsights_def stats pcts Let_def s categorizeLeadTime_def)
  with f(3) e(1,2) c w show ?thesis by blast
qed

end
